theory Spec2Isabelle
  imports Complex_Main
begin

section \<open>Numbers of the source language\<close>

text \<open>
  The generator computes with JavaScript numbers. They are modelled as exact rationals
  together with the three special values the code can produce: \<open>NaN\<close> (arithmetic on
  \<open>undefined\<close>, \<open>0 / 0\<close>), and the two infinities (\<open>Math.max()\<close> and \<open>Math.min()\<close> of no
  arguments, division by zero). Rounding of binary floating point and the sign of zero
  are outside the model.
\<close>

datatype number = Num rat | NaN | PosInf | NegInf

instantiation number :: "{plus, minus, times, uminus, inverse, ord}"
begin

fun plus_number :: "number \<Rightarrow> number \<Rightarrow> number" where
  "plus_number (Num a) (Num b) = Num (a + b)"
| "plus_number NaN _ = NaN"
| "plus_number _ NaN = NaN"
| "plus_number PosInf NegInf = NaN"
| "plus_number NegInf PosInf = NaN"
| "plus_number PosInf _ = PosInf"
| "plus_number _ PosInf = PosInf"
| "plus_number NegInf _ = NegInf"
| "plus_number _ NegInf = NegInf"

fun uminus_number :: "number \<Rightarrow> number" where
  "uminus_number (Num a) = Num (- a)"
| "uminus_number NaN = NaN"
| "uminus_number PosInf = NegInf"
| "uminus_number NegInf = PosInf"

definition minus_number :: "number \<Rightarrow> number \<Rightarrow> number" where
  "minus_number a b = a + (- b)"

text \<open>\<open>a < b\<close> of the source: every comparison with \<open>NaN\<close> is false.\<close>

fun less_number :: "number \<Rightarrow> number \<Rightarrow> bool" where
  "less_number (Num a) (Num b) = (a < b)"
| "less_number NaN _ = False"
| "less_number _ NaN = False"
| "less_number _ NegInf = False"
| "less_number NegInf _ = True"
| "less_number PosInf _ = False"
| "less_number _ PosInf = True"

definition less_eq_number :: "number \<Rightarrow> number \<Rightarrow> bool" where
  "less_eq_number a b = (a < b \<or> (a = b \<and> a \<noteq> NaN))"

fun times_number :: "number \<Rightarrow> number \<Rightarrow> number" where
  "times_number (Num a) (Num b) = Num (a * b)"
| "times_number NaN _ = NaN"
| "times_number _ NaN = NaN"
| "times_number (Num a) PosInf = (if a = 0 then NaN else if 0 < a then PosInf else NegInf)"
| "times_number (Num a) NegInf = (if a = 0 then NaN else if 0 < a then NegInf else PosInf)"
| "times_number PosInf (Num b) = (if b = 0 then NaN else if 0 < b then PosInf else NegInf)"
| "times_number NegInf (Num b) = (if b = 0 then NaN else if 0 < b then NegInf else PosInf)"
| "times_number PosInf PosInf = PosInf"
| "times_number NegInf NegInf = PosInf"
| "times_number PosInf NegInf = NegInf"
| "times_number NegInf PosInf = NegInf"

fun divide_number :: "number \<Rightarrow> number \<Rightarrow> number" where
  "divide_number (Num a) (Num b) =
     (if b = 0 then (if a = 0 then NaN else if 0 < a then PosInf else NegInf)
      else Num (a / b))"
| "divide_number NaN _ = NaN"
| "divide_number _ NaN = NaN"
| "divide_number (Num a) _ = Num 0"
| "divide_number PosInf (Num b) = (if 0 \<le> b then PosInf else NegInf)"
| "divide_number NegInf (Num b) = (if 0 \<le> b then NegInf else PosInf)"
| "divide_number _ _ = NaN"

definition inverse_number :: "number \<Rightarrow> number" where
  "inverse_number a = divide (Num 1) a"

instance ..

end

text \<open>A value that may be \<open>undefined\<close> is a \<open>number option\<close>; arithmetic coerces
  \<open>undefined\<close> to \<open>NaN\<close>.\<close>

definition toNumber :: "number option \<Rightarrow> number" where
  "toNumber v = (case v of None \<Rightarrow> NaN | Some n \<Rightarrow> n)"

text \<open>\<open>a === b\<close> on values that are numbers or \<open>undefined\<close>: \<open>NaN\<close> equals nothing.\<close>

fun strict_eq :: "number option \<Rightarrow> number option \<Rightarrow> bool" where
  "strict_eq None None = True"
| "strict_eq (Some a) (Some b) = (a = b \<and> a \<noteq> NaN)"
| "strict_eq _ _ = False"

text \<open>\<open>Math.max(...vs)\<close> and \<open>Math.min(...vs)\<close>: the infinities for no arguments, \<open>NaN\<close> as
  soon as one argument is \<open>NaN\<close>.\<close>

fun max2 :: "number \<Rightarrow> number \<Rightarrow> number" where
  "max2 NaN _ = NaN"
| "max2 _ NaN = NaN"
| "max2 a b = (if a < b then b else a)"

fun min2 :: "number \<Rightarrow> number \<Rightarrow> number" where
  "min2 NaN _ = NaN"
| "min2 _ NaN = NaN"
| "min2 a b = (if b < a then b else a)"

definition Math_max :: "number list \<Rightarrow> number" where
  "Math_max vs = foldl max2 NegInf vs"

definition Math_min :: "number list \<Rightarrow> number" where
  "Math_min vs = foldl min2 PosInf vs"

fun Math_ceil :: "number \<Rightarrow> number" where
  "Math_ceil (Num r) = Num (of_int \<lceil>r\<rceil>)"
| "Math_ceil n = n"

fun Math_floor :: "number \<Rightarrow> number" where
  "Math_floor (Num r) = Num (of_int \<lfloor>r\<rfloor>)"
| "Math_floor n = n"

text \<open>\<open>n % 1\<close>: the remainder has the sign of \<open>n\<close>; it is \<open>NaN\<close> for the special values.
  \<open>truthy\<close> is the test an \<open>if\<close> makes of a number.\<close>

fun mod1 :: "number \<Rightarrow> number" where
  "mod1 (Num r) = Num (if 0 \<le> r then r - of_int \<lfloor>r\<rfloor> else r - of_int \<lceil>r\<rceil>)"
| "mod1 _ = NaN"

fun truthy :: "number \<Rightarrow> bool" where
  "truthy (Num r) = (r \<noteq> 0)"
| "truthy NaN = False"
| "truthy _ = True"

text \<open>The numbers other than the two infinities.\<close>

fun not_infinite :: "number \<Rightarrow> bool" where
  "not_infinite PosInf = False"
| "not_infinite NegInf = False"
| "not_infinite _ = True"

subsection \<open>Numbers as text\<close>

definition digit :: "nat \<Rightarrow> char" where
  "digit d = ''0123456789'' ! (d mod 10)"

fun digits :: "nat \<Rightarrow> string" where
  "digits n = (if n < 10 then [digit n] else digits (n div 10) @ [digit (n mod 10)])"

declare digits.simps [simp del]

fun frac_digits :: "nat \<Rightarrow> rat \<Rightarrow> string" where
  "frac_digits 0 r = []"
| "frac_digits (Suc k) r =
     (if r = 0 then []
      else digit (nat \<lfloor>r * 10\<rfloor>) # frac_digits k (r * 10 - of_int \<lfloor>r * 10\<rfloor>))"

text \<open>
  String conversion of a number, as string concatenation and template literals perform it:
  decimal notation, no trailing zeros, no decimal point for an integer. It is exact for a
  rational with at most twenty decimal places (longer expansions are cut there, where the
  source prints the shortest text that reads back as the same double); the exponent
  notation of very large and very small doubles is not modelled.
\<close>

fun text_of :: "number \<Rightarrow> string" where
  "text_of NaN = ''NaN''"
| "text_of PosInf = ''Infinity''"
| "text_of NegInf = ''-Infinity''"
| "text_of (Num r) =
     (let a = \<bar>r\<bar>; f = frac_digits 20 (a - of_int \<lfloor>a\<rfloor>)
      in (if r < 0 then ''-'' else []) @ digits (nat \<lfloor>a\<rfloor>) @ (if f = [] then [] else CHR ''.'' # f))"

text \<open>\<open>+n.toFixed(d)\<close>: the number rounded to \<open>d\<close> decimal places, a tie going away from
  zero (on the exact value, where the source rounds the double's binary value).\<close>

fun toFixed :: "nat \<Rightarrow> number \<Rightarrow> number" where
  "toFixed d (Num r) =
     (let q = \<bar>r\<bar> * 10 ^ d; n = of_int \<lfloor>q + 1 / 2\<rfloor> / 10 ^ d
      in Num (if r < 0 then - n else n))"
| "toFixed d n = n"

section \<open>Data model\<close>

text \<open>
  \<open>MovePoint\<close>: a sparse target of one motion command. An axis is present exactly when its
  value is not \<open>undefined\<close> (the constructor sets \<open>axesPresent\<close> so), which is \<open>Some\<close> here.
  The fields are named \<open>ax\<close>, \<open>ay\<close>, \<open>az\<close> and those of \<open>DimensionPoint\<close> \<open>px\<close>, \<open>pz\<close>: the
  source calls all of them \<open>x\<close>, \<open>y\<close>, \<open>z\<close>.
\<close>

record MovePoint =
  ax :: "number option"
  ay :: "number option"
  az :: "number option"

record DimensionPoint =
  px :: number
  pz :: number

definition getMovePoint :: "DimensionPoint \<Rightarrow> MovePoint" where
  "getMovePoint p = \<lparr>ax = Some (px p), ay = None, az = Some (pz p)\<rparr>"

text \<open>The constants of the source's \<open>global\<close> object.\<close>

record config =
  depths_max :: number
  depths_min :: number
  xClearance :: number
  zClearance :: number
  colletShift :: number
  feed :: number
  rpm :: number
  stickout :: number
  decimals :: nat
  G75Functional :: bool

definition global :: config where
  "global = \<lparr>depths_max = Num 0.040, depths_min = Num 0.010, xClearance = Num 0.010,
     zClearance = Num 0.100, colletShift = Num 0.050, feed = Num 0.002, rpm = Num 1500,
     stickout = Num 1, decimals = 4, G75Functional = False\<rparr>"

text \<open>The emitter state, the module-level variable \<open>state\<close> of the source; every emitter
  function takes it and returns it.\<close>

record state =
  lastGCode :: string
  lastFeed :: number
  position :: MovePoint

definition state0 :: state where
  "state0 = \<lparr>lastGCode = ''None'', lastFeed = Num (- 1),
     position = \<lparr>ax = None, ay = None, az = None\<rparr>\<rparr>"

section \<open>Command emitter\<close>

text \<open>The test both motion commands start with: of the present axes, none differs from
  the last-known position.\<close>

definition nothing_new :: "MovePoint \<Rightarrow> MovePoint \<Rightarrow> bool" where
  "nothing_new point pos \<longleftrightarrow>
     (ax point = None \<or> strict_eq (ax point) (ax pos)) \<and>
     (ay point = None \<or> strict_eq (ay point) (ay pos)) \<and>
     (az point = None \<or> strict_eq (az point) (az pos))"

text \<open>One axis word: printed when the axis is present and differs from the last-known
  value.\<close>

definition axis_word :: "char \<Rightarrow> number option \<Rightarrow> number option \<Rightarrow> string" where
  "axis_word c v known =
     (case v of None \<Rightarrow> []
      | Some n \<Rightarrow> if strict_eq v known then [] else c # text_of (toFixed (decimals global) n))"

definition axis_words :: "MovePoint \<Rightarrow> MovePoint \<Rightarrow> string" where
  "axis_words point pos =
     axis_word CHR ''X'' (ax point) (ax pos) @ axis_word CHR ''Y'' (ay point) (ay pos) @
     axis_word CHR ''Z'' (az point) (az pos)"

definition comment_text :: "string option \<Rightarrow> string" where
  "comment_text comment = (case comment of None \<Rightarrow> [] | Some c \<Rightarrow> ''('' @ c @ '')'')"

definition rapidPosition :: "state \<Rightarrow> MovePoint \<Rightarrow> string option \<Rightarrow> string \<times> state" where
  "rapidPosition st point comment =
     (if nothing_new point (position st) then ([], st)
      else
        ((if lastGCode st \<noteq> ''00'' then ''G00'' else []) @
           axis_words point (position st) @ comment_text comment @ [CHR 0x0A],
         st\<lparr>lastGCode := ''00'', lastFeed := Num (- 1)\<rparr>))"

definition feed_word :: "number option \<Rightarrow> number \<Rightarrow> string" where
  "feed_word f known =
     (case f of None \<Rightarrow> []
      | Some n \<Rightarrow> if strict_eq f (Some known) then []
                  else CHR ''F'' # text_of (toFixed (decimals global) n))"

definition linearInterpolation ::
    "state \<Rightarrow> MovePoint \<Rightarrow> number option \<Rightarrow> string option \<Rightarrow> string \<times> state" where
  "linearInterpolation st point f comment =
     (if nothing_new point (position st) then ([], st)
      else
        ((if lastGCode st \<noteq> ''01'' then ''G01'' else []) @
           axis_words point (position st) @ feed_word f (lastFeed st) @
           comment_text comment @ [CHR 0x0A],
         st\<lparr>lastGCode := ''01'', lastFeed := (case f of None \<Rightarrow> Num (- 1) | Some n \<Rightarrow> n)\<rparr>))"

text \<open>\<open>boxCycle\<close> prints the end point's z under the letter X, as the source does.\<close>

definition boxCycle ::
    "state \<Rightarrow> DimensionPoint \<Rightarrow> DimensionPoint \<Rightarrow> number \<Rightarrow> number \<Rightarrow> string option
      \<Rightarrow> string \<times> state" where
  "boxCycle st startPoint endPoint finishBufferRadius f comment =
     (let (code, st1) = rapidPosition st (getMovePoint startPoint) None;
          d = decimals global
      in (code @ ''G74'' @
            ''X'' @ text_of (toFixed d (px endPoint)) @
            ''X'' @ text_of (toFixed d (pz endPoint)) @
            ''I'' @ text_of (toFixed d (depths_max global / Num 2)) @
            ''U'' @ text_of (toFixed d finishBufferRadius) @
            ''F'' @ text_of (toFixed d f) @
            comment_text comment @ [CHR 0x0A],
          st1\<lparr>lastGCode := ''None''\<rparr>))"

section \<open>Outcomes\<close>

text \<open>
  A call of the source returns, throws, or does not come back. The emitter state is a
  module-level variable, so it survives a throw: both a return and a throw carry the
  state they leave behind.
\<close>

datatype error = RangeError string | TypeError string

fun message :: "error \<Rightarrow> string" where
  "message (RangeError m) = m"
| "message (TypeError m) = m"

datatype 'a outcome = Returns 'a state | Throws error state | Diverges

text \<open>
  The values the counter takes in \<open>for (let i = start; i < bound; i++)\<close>. With the bound
  \<open>Infinity\<close> the test never fails and the loop does not end: \<open>None\<close>.
\<close>

fun counter_values :: "nat \<Rightarrow> number \<Rightarrow> nat list option" where
  "counter_values start (Num n) = Some [start ..< nat \<lceil>n\<rceil>]"
| "counter_values start PosInf = None"
| "counter_values start _ = Some []"

section \<open>Contour cycle generator\<close>

definition taperSubroutine :: "number \<Rightarrow> DimensionPoint list \<Rightarrow> string" where
  "taperSubroutine ident points =
     concat (map (\<lambda>p. ''X'' @ text_of (toFixed (decimals global) (px p)) @
                        ''Z'' @ text_of (toFixed (decimals global) (pz p)) @ [CHR 0x0A]) points)
     @ ''RF'' @ [CHR 0x0A]"

text \<open>
  \<open>genMultiPassPoints\<close>: the passes \<open>i = 1 .. numPasses - 1\<close> scale every x between
  \<open>startX\<close> and the contour, then the contour itself is added as the last pass.
\<close>

definition genMultiPassPoints ::
    "DimensionPoint list \<Rightarrow> number \<Rightarrow> number \<Rightarrow> DimensionPoint list list option" where
  "genMultiPassPoints points startX I =
     (let xVals = map px points;
          numPasses = Math_ceil ((startX - Math_min xVals) / (Num 2 * I));
          xDeltas = map (\<lambda>val. (startX - val) / numPasses) xVals
      in case counter_values 1 numPasses of
           None \<Rightarrow> None
         | Some is \<Rightarrow>
             Some (map (\<lambda>i. map (\<lambda>(delta, p). \<lparr>px = startX - Num (of_nat i) * delta, pz = pz p\<rparr>)
                               (zip xDeltas points)) is
                   @ [points]))"

text \<open>A run of linear moves, the state threaded through them in order.\<close>

fun linear_moves :: "state \<Rightarrow> MovePoint list \<Rightarrow> number option \<Rightarrow> string \<times> state" where
  "linear_moves st [] f = ([], st)"
| "linear_moves st (p # ps) f =
     (let (c1, st1) = linearInterpolation st p f None;
          (c2, st2) = linear_moves st1 ps f
      in (c1 @ c2, st2))"

definition basicTaper :: "state \<Rightarrow> MovePoint list \<Rightarrow> number \<Rightarrow> string \<times> state" where
  "basicTaper st points f =
     (let startZ = az (position st);
          (c1, st1) = linear_moves st points (Some f);
          (c2, st2) = linearInterpolation st1
             \<lparr>ax = Some (Math_max (map (\<lambda>p. toNumber (ax p)) points) + xClearance global),
              ay = None, az = None\<rparr> None None;
          (c3, st3) = rapidPosition st2 \<lparr>ax = None, ay = None, az = startZ\<rparr> None
      in (c1 @ c2 @ c3, st3))"

text \<open>The body of the \<open>for (let pass of passes)\<close> loop of \<open>simG75\<close>, over all passes.\<close>

fun run_passes ::
    "state \<Rightarrow> DimensionPoint list list \<Rightarrow> number \<Rightarrow> MovePoint \<Rightarrow> number \<Rightarrow> string \<times> state" where
  "run_passes st [] maxDiam origPoint F = ([], st)"
| "run_passes st (pass # passes) maxDiam origPoint F =
     (let (c1, st1) = basicTaper st (map getMovePoint pass) F;
          (c2, st2) = linearInterpolation st1
             \<lparr>ax = Some (maxDiam + xClearance global), ay = None, az = None\<rparr> (Some F) None;
          (c3, st3) = rapidPosition st2
             \<lparr>ax = None, ay = None, az = Some (toNumber (az origPoint) + zClearance global)\<rparr> None;
          (c4, st4) = run_passes st3 passes maxDiam origPoint F
      in (c1 @ c2 @ c3 @ c4, st4))"

text \<open>
  \<open>simG75\<close> assembles its commands in the local variable \<open>code\<close> and ends without a
  \<open>return\<close> statement: the value its caller receives is \<open>undefined\<close>. The model returns
  the text that was assembled, so that it can be spoken about, together with the state
  the calls of the emitter left; \<open>contourCycle\<close> below appends what it really receives.
\<close>

definition simG75 ::
    "state \<Rightarrow> DimensionPoint list \<Rightarrow> number \<Rightarrow> number \<Rightarrow> number \<Rightarrow> string outcome" where
  "simG75 st points I U F =
     (let finishSpacedPoints = map (\<lambda>p. \<lparr>px = px p + Num 2 * U, pz = pz p\<rparr>) points;
          maxDiam = Math_max (map px finishSpacedPoints);
          clearZ = Math_min (map pz finishSpacedPoints);
          origPoint = position st;
          c0 = (case ax origPoint of
                  None \<Rightarrow> []
                | Some ox \<Rightarrow>
                    if maxDiam < ox
                    then ''G74X'' @ text_of maxDiam @ ''Z'' @ text_of clearZ @ ''I'' @ text_of I @
                         ''U'' @ text_of (Num 0) @ ''F'' @ text_of F @ [CHR 0x0A]
                    else [])
      in case genMultiPassPoints finishSpacedPoints maxDiam I of
           None \<Rightarrow> Diverges
         | Some passes \<Rightarrow>
             (let (c1, st1) = run_passes st passes maxDiam origPoint F;
                  (c2, st2) = linearInterpolation st1 origPoint (Some F) None
              in Returns (c0 @ c1 @ c2) st2))"

definition contourCycle ::
    "state \<Rightarrow> DimensionPoint \<Rightarrow> DimensionPoint list \<Rightarrow> number \<Rightarrow> number \<Rightarrow> number
      \<Rightarrow> string option \<Rightarrow> string outcome" where
  "contourCycle st startPoint points subroutineID finishBufferRadius f comment =
     (if G75Functional global then
        (let (c1, st1) = linearInterpolation st (getMovePoint startPoint) (Some f)
                           (Some ''Beginning G75 contour cycle'');
             d = decimals global
         in Returns
              (c1 @ ''G75'' @
               ''I'' @ text_of (toFixed d (depths_max global / Num 2)) @
               ''U'' @ text_of (toFixed d finishBufferRadius) @
               ''F'' @ text_of (toFixed d f) @
               comment_text comment @ [CHR 0x0A] @
               taperSubroutine subroutineID points)
              (st1\<lparr>lastGCode := ''None''\<rparr>))
      else
        (let (c1, st1) = linearInterpolation st (getMovePoint startPoint) (Some f)
                           (Some (''Simulated G75 Contour cycle'' @
                                  (case comment of None \<Rightarrow> [] | Some c \<Rightarrow> '' - '' @ c)))
         in case simG75 st1 points (depths_max global / Num 2) finishBufferRadius f of
              Returns assembled st2 \<Rightarrow> Returns (c1 @ ''undefined'') st2
            | Throws e st2 \<Rightarrow> Throws e st2
            | Diverges \<Rightarrow> Diverges))"

section \<open>Sections\<close>

text \<open>
  \<open>Array.prototype.sort\<close> with the comparator \<open>(a, b) => b.z - a.z\<close>: a stable sort
  (insertion from the right) that puts \<open>q\<close> before \<open>p\<close> when the comparator is positive.
\<close>

fun insert_desc :: "DimensionPoint \<Rightarrow> DimensionPoint list \<Rightarrow> DimensionPoint list" where
  "insert_desc p [] = [p]"
| "insert_desc p (q # qs) =
     (if Num 0 < pz q - pz p then q # insert_desc p qs else p # q # qs)"

definition sort_desc :: "DimensionPoint list \<Rightarrow> DimensionPoint list" where
  "sort_desc ps = foldr insert_desc ps []"

record Section =
  points :: "DimensionPoint list"
  machiningPoints :: "DimensionPoint list"
  length_sec :: number
  maxDiameter :: number

text \<open>The constructor of \<open>Section\<close> (the field \<open>length\<close> is \<open>length_sec\<close> here).\<close>

definition new_Section :: "DimensionPoint list \<Rightarrow> Section" where
  "new_Section ps =
     (let len = Math_max (map pz ps)
      in \<lparr>points = ps,
          machiningPoints =
            map (\<lambda>p. p\<lparr>pz := pz p - stickout global\<rparr>)
              (sort_desc (map (\<lambda>p. \<lparr>px = px p, pz = - pz p + len\<rparr>) ps)),
          length_sec = len,
          maxDiameter = Math_max (map px ps)\<rparr>)"

definition getLengthOffsetPoint :: "Section \<Rightarrow> nat \<Rightarrow> DimensionPoint option" where
  "getLengthOffsetPoint s i =
     (if i < length (points s)
      then Some \<lparr>px = px (points s ! i), pz = pz (points s ! i) - length_sec s\<rparr>
      else None)"

section \<open>Section cycle\<close>

definition range_message :: string where
  "range_message = ''Provided taper includes diameter(s) exceeding provided start diameter, taper will not be accurate!''"

text \<open>The text of the TypeError raised by reading \<open>x\<close> of \<open>undefined\<close> is the engine's
  (here V8's).\<close>

definition type_message :: string where
  "type_message = ''Cannot read properties of undefined (reading '' @ [CHR 0x27] @ ''x'' @ [CHR 0x27] @ '')''"

definition sectionCycle :: "state \<Rightarrow> number \<Rightarrow> Section \<Rightarrow> number \<Rightarrow> string outcome" where
  "sectionCycle st startDiameter section subroutineID =
     (if startDiameter < maxDiameter section then Throws (RangeError range_message) st
      else
        (case machiningPoints section of
           [] \<Rightarrow> Throws (TypeError type_message) st
         | m0 # _ \<Rightarrow>
             (let c0 = ''G94F'' @ text_of (rpm global * feed global) @ [CHR 0x0A];
                  (c1, st1) = linearInterpolation st
                     \<lparr>ax = Some (px m0 + xClearance global), ay = None, az = Some (pz m0)\<rparr>
                     None None;
                  c2 = ''M01(Move stock to appropriate position)'' @ [CHR 0x0A];
                  safeX = startDiameter + xClearance global;
                  safeZ = length_sec section - stickout global + zClearance global;
                  (c3, st3) = linearInterpolation st1 \<lparr>ax = Some safeX, ay = None, az = Some safeZ\<rparr>
                     None None;
                  c4 = ''M03S'' @ text_of (rpm global) @ [CHR 0x0A] @
                       ''G95F'' @ text_of (feed global) @ [CHR 0x0A]
              in case contourCycle st3 \<lparr>px = safeX, pz = safeZ\<rparr> (machiningPoints section)
                        subroutineID (depths_max global / Num 4) (feed global) None of
                   Diverges \<Rightarrow> Diverges
                 | Throws e st5 \<Rightarrow> Throws e st5
                 | Returns c5 st5 \<Rightarrow>
                     (let (c6, st6) = basicTaper st5 (map getMovePoint (machiningPoints section))
                                        (feed global);
                          (c7, st7) = rapidPosition st6
                             \<lparr>ax = Some safeX, ay = None, az = Some (zClearance global)\<rparr> None
                      in Returns (c0 @ c1 @ c2 @ c3 @ c4 @ c5 @ c6 @ c7 @ ''M05'' @ [CHR 0x0A])
                           st7))))"

section \<open>Segmenter\<close>

text \<open>Reading an array at an index: \<open>undefined\<close> outside \<open>0 .. length - 1\<close>.\<close>

definition nth_js :: "'a list \<Rightarrow> int \<Rightarrow> 'a option" where
  "nth_js xs k = (if 0 \<le> k \<and> k < int (length xs) then Some (xs ! nat k) else None)"

text \<open>\<open>findIndex\<close>: the first index whose element passes the test, \<open>-1\<close> when there is
  none; \<open>indexOf\<close> is the same with \<open>===\<close> as the test.\<close>

fun findIndex :: "('a \<Rightarrow> bool) \<Rightarrow> 'a list \<Rightarrow> int" where
  "findIndex P [] = - 1"
| "findIndex P (e # es) =
     (if P e then 0 else (let k = findIndex P es in if k < 0 then - 1 else k + 1))"

definition indexOf :: "number list \<Rightarrow> number \<Rightarrow> int" where
  "indexOf vs v = findIndex (\<lambda>e. strict_eq (Some e) (Some v)) vs"

text \<open>\<open>slice(start, end)\<close>: each bound is cut to an integer (\<open>NaN\<close> is 0), counted from
  the end when negative, and clamped to the array.\<close>

fun slice_bound :: "nat \<Rightarrow> number \<Rightarrow> nat" where
  "slice_bound len (Num r) =
     (let k = (if 0 \<le> r then \<lfloor>r\<rfloor> else \<lceil>r\<rceil>)
      in if k < 0 then nat (max (int len + k) 0) else min (nat k) len)"
| "slice_bound len NaN = 0"
| "slice_bound len PosInf = len"
| "slice_bound len NegInf = 0"

definition slice :: "'a list \<Rightarrow> number \<Rightarrow> number \<Rightarrow> 'a list" where
  "slice xs s e =
     (let a = slice_bound (length xs) s; b = slice_bound (length xs) e
      in take (b - a) (drop a xs))"

text \<open>\<open>organizedPoints\<close>: one point for each index of \<open>xPoints\<close>. A z that is missing
  there is \<open>undefined\<close>; its only use is the subtraction of the section offset, which makes
  it \<open>NaN\<close>.\<close>

definition organize :: "number list \<Rightarrow> number list \<Rightarrow> DimensionPoint list" where
  "organize xPoints zPoints =
     map (\<lambda>i. \<lparr>px = xPoints ! i, pz = toNumber (nth_js zPoints (int i))\<rparr>) [0 ..< length xPoints]"

text \<open>
  The points of one section: the start point when the start index is fractional, the
  measured points from \<open>ceil(startIndex)\<close> to \<open>floor(endIndex)\<close>, the end point when the
  end index is fractional (\<open>endPoint = None\<close> for the last section, which has no such
  step), every z moved by the section's offset.
\<close>

definition includedPoints ::
    "DimensionPoint list \<Rightarrow> number \<Rightarrow> number \<times> number \<Rightarrow> number \<Rightarrow> (number \<times> number) option
      \<Rightarrow> number \<Rightarrow> DimensionPoint list" where
  "includedPoints organizedPoints startIndex startPoint endIndex endPoint offset =
     (if truthy (mod1 startIndex)
      then [\<lparr>px = fst startPoint, pz = snd startPoint - offset\<rparr>] else []) @
     map (\<lambda>p. \<lparr>px = px p, pz = pz p - offset\<rparr>)
       (slice organizedPoints (Math_ceil startIndex) (Math_floor endIndex + Num 1)) @
     (case endPoint of
        None \<Rightarrow> []
      | Some e \<Rightarrow> if truthy (mod1 endIndex) then [\<lparr>px = fst e, pz = snd e - offset\<rparr>] else [])"

text \<open>
  The end of section \<open>i\<close>, as the if/else at the head of the loop body assigns it to
  \<open>endIndex\<close> and \<open>endPoint\<close>: interpolated between the first z beyond the boundary and
  its predecessor when no z equals the boundary, and otherwise the measured point there.
\<close>

definition section_end :: "number list \<Rightarrow> number list \<Rightarrow> nat \<Rightarrow> number \<times> (number \<times> number)" where
  "section_end xPoints zPoints i =
     (let boundary = Num (of_nat (i + 1)) * stickout global;
          xAt = (\<lambda>k. toNumber (nth_js xPoints k));
          zAt = (\<lambda>k. toNumber (nth_js zPoints k));
          found = indexOf zPoints boundary
      in if found = - 1 then
           (let firstIndexInNext = findIndex (\<lambda>element. boundary < element) zPoints;
                endIndex = Num (of_int firstIndexInNext) - Num 1 +
                  (boundary - zAt (firstIndexInNext - 1)) /
                  (zAt firstIndexInNext - zAt (firstIndexInNext - 1))
            in (endIndex,
                (xAt (firstIndexInNext - 1) +
                   mod1 endIndex * (xAt firstIndexInNext - xAt (firstIndexInNext - 1)),
                 zAt (firstIndexInNext - 1) +
                   mod1 endIndex * (zAt firstIndexInNext - zAt (firstIndexInNext - 1)))))
         else (Num (of_int found), (xAt found, zAt found)))"

text \<open>
  One round of the loop over all sections but the last. The loop carries the start index,
  the start point and the sections so far; \<open>endIndex\<close> and \<open>endPoint\<close> are assigned afresh
  in every round. The start point is read only when the start index is fractional, that
  is after a round has assigned it.
\<close>

definition interpolate_step ::
    "number list \<Rightarrow> number list \<Rightarrow> number \<times> (number \<times> number) \<times> Section list \<Rightarrow> nat
      \<Rightarrow> number \<times> (number \<times> number) \<times> Section list" where
  "interpolate_step xPoints zPoints acc i =
     (let (startIndex, startPoint, sections) = acc;
          (endIndex, endPoint) = section_end xPoints zPoints i
      in (endIndex, endPoint,
          sections @ [new_Section (includedPoints (organize xPoints zPoints) startIndex startPoint
                                     endIndex (Some endPoint) (Num (of_nat i) * stickout global))]))"

definition interpolatePoints :: "number list \<Rightarrow> number list \<Rightarrow> Section list option" where
  "interpolatePoints xPoints zPoints =
     (let fullLength = Math_max zPoints;
          numSections = Math_ceil (fullLength / stickout global);
          organizedPoints = organize xPoints zPoints
      in case counter_values 0 (numSections - Num 1) of
           None \<Rightarrow> None
         | Some is \<Rightarrow>
             (let (startIndex, startPoint, sections) =
                    foldl (interpolate_step xPoints zPoints)
                      (Num 0, (toNumber (nth_js xPoints 0), toNumber (nth_js zPoints 0)), []) is;
                  endIndex = Num (of_nat (length organizedPoints)) - Num 1
              in Some (sections @
                   [new_Section (includedPoints organizedPoints startIndex startPoint endIndex None
                                   ((numSections - Num 1) * stickout global))])))"

section \<open>Program assembler\<close>

text \<open>
  A cell of the caller's range, flattened: a (finite) number, or anything the filter drops
  (the empty cell and text that is no number). Text that spells a number passes the
  source's filter as a string and is outside the model.
\<close>

datatype cell = Number rat | Other

fun numeric :: "cell \<Rightarrow> bool" where
  "numeric (Number r) = True"
| "numeric Other = False"

fun cell_value :: "cell \<Rightarrow> number" where
  "cell_value (Number r) = Num r"
| "cell_value Other = NaN"

text \<open>The stable sort of the (diameter, location) pairs by the comparator
  \<open>a.z < b.z ? -1 : (a.z == b.z ? 0 : 1)\<close>.\<close>

definition compare_z :: "DimensionPoint \<Rightarrow> DimensionPoint \<Rightarrow> int" where
  "compare_z a b =
     (if pz a < pz b then - 1 else if strict_eq (Some (pz a)) (Some (pz b)) then 0 else 1)"

fun insert_asc :: "DimensionPoint \<Rightarrow> DimensionPoint list \<Rightarrow> DimensionPoint list" where
  "insert_asc p [] = [p]"
| "insert_asc p (q # qs) = (if 0 < compare_z p q then q # insert_asc p qs else p # q # qs)"

definition sort_asc :: "DimensionPoint list \<Rightarrow> DimensionPoint list" where
  "sort_asc ps = foldr insert_asc ps []"

text \<open>
  The first part of \<open>genCode\<close>, up to the call of the segmenter: the cleaned diameters and
  locations and the two counts of dropped cells, or the message that the counts of valid
  cells differ. When the first diameter exceeds the last, the diameters are reversed; the
  loop over the locations that follows computes \<open>-point + taperLength\<close> for each and
  stores it nowhere, so the locations stay as they are.
\<close>

definition prepare_points ::
    "cell list \<Rightarrow> cell list option \<Rightarrow> string + (number list \<times> number list \<times> int \<times> int)" where
  "prepare_points diameterList optLocationList =
     (let filteredDiameterList = map cell_value (filter numeric diameterList);
          numDiametersRemoved = int (length diameterList) - int (length filteredDiameterList);
          sorted =
            (case optLocationList of
               None \<Rightarrow>
                 Inr (filteredDiameterList,
                      map (\<lambda>i. Num (of_nat i) * Num 0.25) [0 ..< length filteredDiameterList],
                      - 1)
             | Some locs \<Rightarrow>
                 (let filteredLocationList = map cell_value (filter numeric locs);
                      numPointsRemoved = int (length locs) - int (length filteredLocationList)
                  in if length filteredLocationList \<noteq> length filteredDiameterList
                     then Inl ''Diameters and locations contain unqual numbers of valid data points.''
                     else
                       (let tempObjects = sort_asc
                              (map (\<lambda>(d, l). \<lparr>px = d, pz = l\<rparr>)
                                 (zip filteredDiameterList filteredLocationList))
                        in Inr (map px tempObjects, map pz tempObjects, numPointsRemoved))))
      in case sorted of
           Inl m \<Rightarrow> Inl m
         | Inr (diameterPoints, locationPoints, numPointsRemoved) \<Rightarrow>
             Inr (if toNumber (nth_js diameterPoints (int (length diameterPoints) - 1))
                       < toNumber (nth_js diameterPoints 0)
                  then rev diameterPoints else diameterPoints,
                  locationPoints, numDiametersRemoved, numPointsRemoved))"

definition plural :: "int \<Rightarrow> string" where
  "plural n = (if 1 < n then ''s'' else [])"

definition note_lines :: "int \<Rightarrow> int \<Rightarrow> string" where
  "note_lines numDiametersRemoved numPointsRemoved =
     (if 0 < numDiametersRemoved \<or> 0 < numPointsRemoved then
        (if numDiametersRemoved = numPointsRemoved then
           ''(NOTE - '' @ text_of (Num (of_int numDiametersRemoved)) @
           '' non-numeric or empty data pair'' @ plural numDiametersRemoved @ '' ignored.)'' @
           [CHR 0x0A]
         else
           (if 0 < numDiametersRemoved then
              ''(NOTE - '' @ text_of (Num (of_int numDiametersRemoved)) @
              '' non-numeric or empty diameter'' @ plural numDiametersRemoved @ '' ignored.)'' @
              [CHR 0x0A]
            else []) @
           (if 0 < numPointsRemoved then
              ''(NOTE - '' @ text_of (Num (of_int numPointsRemoved)) @
              '' non-numeric or empty point location'' @ plural numPointsRemoved @
              '' ignored.)'' @ [CHR 0x0A]
            else []))
      else [])"

text \<open>The date of the run is an input of the model: \<open>getMonth()\<close>, \<open>getDate()\<close> and
  \<open>getFullYear()\<close> of \<open>new Date()\<close>.\<close>

record date =
  getMonth :: int
  getDate :: int
  getFullYear :: int

definition header :: "date \<Rightarrow> number \<Rightarrow> string" where
  "header today stockDiameter =
     ''(OMalley Brass)'' @ [CHR 0x0A] @
     ''('' @ text_of (stickout global) @ '' inch part stickout)'' @ [CHR 0x0A] @
     ''('' @ text_of stockDiameter @ '' inch diameter stock)'' @ [CHR 0x0A] @
     ''(T1 OD Cutter)'' @ [CHR 0x0A] @
     ''(Code generation by Jeremy Peplinski)'' @ [CHR 0x0A] @
     ''(Executed '' @ text_of (Num (of_int (getMonth today + 1))) @ ''.'' @
        text_of (Num (of_int (getDate today))) @ ''.'' @
        text_of (Num (of_int (getFullYear today))) @ '')'' @ [CHR 0x0A] @
     ''G72G90G97G95F'' @ text_of (feed global) @ [CHR 0x0A] @
     ''T1'' @ [CHR 0x0A]"

text \<open>The loop over the sections, from index \<open>i\<close> on. A throw ends it; the state the
  earlier sections left stays.\<close>

fun run_sections :: "state \<Rightarrow> number \<Rightarrow> Section list \<Rightarrow> nat \<Rightarrow> string outcome" where
  "run_sections st stockDiameter [] i = Returns [] st"
| "run_sections st stockDiameter (s # ss) i =
     (case sectionCycle st stockDiameter s (Num (of_nat (i + 1)) * Num 100) of
        Diverges \<Rightarrow> Diverges
      | Throws e st1 \<Rightarrow> Throws e st1
      | Returns c st1 \<Rightarrow>
          (case run_sections st1 stockDiameter ss (i + 1) of
             Diverges \<Rightarrow> Diverges
           | Throws e st2 \<Rightarrow> Throws e st2
           | Returns cs st2 \<Rightarrow>
               Returns (''(Section '' @ text_of (Num (of_nat (i + 1))) @ '')'' @ [CHR 0x0A] @ c @ cs)
                 st2))"

text \<open>\<open>genCode\<close>: the text it returns and the emitter state it leaves, or \<open>None\<close> when
  it does not return. It catches every throw and returns the error's message.\<close>

definition genCode ::
    "state \<Rightarrow> date \<Rightarrow> rat \<Rightarrow> cell list \<Rightarrow> cell list option \<Rightarrow> (string \<times> state) option" where
  "genCode st today stockDiameter diameterList optLocationList =
     (case prepare_points diameterList optLocationList of
        Inl m \<Rightarrow> Some (m, st)
      | Inr (diameterPoints, locationPoints, numDiametersRemoved, numPointsRemoved) \<Rightarrow>
          (case interpolatePoints diameterPoints locationPoints of
             None \<Rightarrow> None
           | Some sections \<Rightarrow>
               (case run_sections st (Num stockDiameter) sections 0 of
                  Diverges \<Rightarrow> None
                | Throws e st1 \<Rightarrow> Some (message e, st1)
                | Returns body st1 \<Rightarrow>
                    Some (note_lines numDiametersRemoved numPointsRemoved @
                          header today (Num stockDiameter) @ body @ ''M30'' @ [CHR 0x0A], st1))))"

text \<open>No machining point of any of the sections has an infinite diameter.\<close>

definition px_ok :: "Section list \<Rightarrow> bool" where
  "px_ok secs \<longleftrightarrow> (\<forall>sec \<in> set secs. \<forall>p \<in> set (machiningPoints sec). not_infinite (px p))"




text \<open>How many of the measured positions, ascending, lie before a boundary, and how many
  lie before or on it.\<close>

definition cnt_lt :: "rat list \<Rightarrow> rat \<Rightarrow> nat" where
  "cnt_lt zr b = length (takeWhile (\<lambda>z. z < b) zr)"

definition cnt_le :: "rat list \<Rightarrow> rat \<Rightarrow> nat" where
  "cnt_le zr b = length (takeWhile (\<lambda>z. z \<le> b) zr)"

text \<open>
  What every run of \<open>genCode\<close> finds and leaves: no axis of the last-known position is
  known, and the last mode is not \<open>01\<close>. Two outcomes show the same output when they
  agree in everything but the state, and the states they leave are of that kind.
\<close>

definition fresh_entry :: "state \<Rightarrow> bool" where
  "fresh_entry st \<longleftrightarrow> position st = \<lparr>ax = None, ay = None, az = None\<rparr> \<and> lastGCode st \<noteq> ''01''"

fun same_output :: "string outcome \<Rightarrow> string outcome \<Rightarrow> bool" where
  "same_output (Returns t a) (Returns t' a') = (t = t' \<and> fresh_entry a \<and> fresh_entry a')"
| "same_output (Throws e a) (Throws e' a') = (e = e' \<and> fresh_entry a \<and> fresh_entry a')"
| "same_output Diverges Diverges = True"
| "same_output _ _ = False"

section \<open>Properties of the numbers\<close>

lemma global_simps:
  "G75Functional global = False" "depths_max global = Num 0.040" "decimals global = 4"
  "xClearance global = Num 0.010" "zClearance global = Num 0.100" "feed global = Num 0.002"
  "rpm global = Num 1500" "stickout global = Num 1"
  by (simp_all add: global_def)

lemma not_infinite_plus: "not_infinite a \<Longrightarrow> not_infinite b \<Longrightarrow> not_infinite (a + b)"
  by (cases a; cases b) simp_all

lemma not_infinite_uminus: "not_infinite a \<Longrightarrow> not_infinite (- a)"
  by (cases a) simp_all

lemma not_infinite_minus: "not_infinite a \<Longrightarrow> not_infinite b \<Longrightarrow> not_infinite (a - b)"
  by (simp add: minus_number_def not_infinite_plus not_infinite_uminus)

lemma not_infinite_times: "not_infinite a \<Longrightarrow> not_infinite b \<Longrightarrow> not_infinite (a * b)"
  by (cases a; cases b) simp_all

lemma not_infinite_mod1: "not_infinite (mod1 a)"
  by (cases a) simp_all

lemma max2_not_PosInf: "a \<noteq> PosInf \<Longrightarrow> b \<noteq> PosInf \<Longrightarrow> max2 a b \<noteq> PosInf"
  by (cases a; cases b) simp_all

lemma min2_not_NegInf: "a \<noteq> NegInf \<Longrightarrow> b \<noteq> NegInf \<Longrightarrow> min2 a b \<noteq> NegInf"
  by (cases a; cases b) simp_all

lemma foldl_max2_not_PosInf:
  "acc \<noteq> PosInf \<Longrightarrow> \<forall>v \<in> set vs. v \<noteq> PosInf \<Longrightarrow> foldl max2 acc vs \<noteq> PosInf"
  by (induction vs arbitrary: acc) (simp_all add: max2_not_PosInf)

lemma foldl_min2_not_NegInf:
  "acc \<noteq> NegInf \<Longrightarrow> \<forall>v \<in> set vs. v \<noteq> NegInf \<Longrightarrow> foldl min2 acc vs \<noteq> NegInf"
  by (induction vs arbitrary: acc) (simp_all add: min2_not_NegInf)

lemma Math_max_not_PosInf: "\<forall>v \<in> set vs. not_infinite v \<Longrightarrow> Math_max vs \<noteq> PosInf"
  unfolding Math_max_def by (rule foldl_max2_not_PosInf) auto

lemma Math_min_not_NegInf: "\<forall>v \<in> set vs. not_infinite v \<Longrightarrow> Math_min vs \<noteq> NegInf"
  unfolding Math_min_def by (rule foldl_min2_not_NegInf) auto

lemma minus_not_PosInf: "a \<noteq> PosInf \<Longrightarrow> b \<noteq> NegInf \<Longrightarrow> a - b \<noteq> PosInf"
  by (cases a; cases b) (simp_all add: minus_number_def)

lemma divide_not_PosInf: "a \<noteq> PosInf \<Longrightarrow> 0 < c \<Longrightarrow> a / Num c \<noteq> PosInf"
  by (cases a) simp_all

lemma counter_values_Some: "n \<noteq> PosInf \<Longrightarrow> \<exists>is. counter_values k (Math_ceil n) = Some is"
  by (cases n) simp_all







section \<open>The command emitter\<close>

lemma linearInterpolation_emits:
  assumes "linearInterpolation st p f c = (t1, st1)" and "t1 \<noteq> []"
  shows "st1 = st\<lparr>lastGCode := ''01'',
                   lastFeed := (case f of None \<Rightarrow> Num (- 1) | Some n \<Rightarrow> n)\<rparr>"
proof (cases "nothing_new p (position st)")
  case True
  with assms show ?thesis by (simp add: linearInterpolation_def)
next
  case False
  with assms(1) show ?thesis by (simp add: linearInterpolation_def)
qed

text \<open>
  Claim C6 (rapid move: no-op when nothing is new; otherwise only the changed axes are
  printed, the last-known position is updated for every present axis and the last-known
  feed is cleared). The code never assigns \<open>state.position\<close>: from the initial state, a
  rapid move to \<open>X = 1\<close> prints \<open>G00X1\<close>, records the mode \<open>00\<close> and clears the feed, and the
  last-known x is still \<open>undefined\<close> afterwards, where the claim has it 1.
\<close>

theorem C6_rapidPosition_keeps_position:
  "rapidPosition state0 \<lparr>ax = Some (Num 1), ay = None, az = None\<rparr> None =
     (''G00X1'' @ [CHR 0x0A],
      \<lparr>lastGCode = ''00'', lastFeed = Num (- 1),
       position = \<lparr>ax = None, ay = None, az = None\<rparr>\<rparr>)"
  by code_simp

text \<open>
  Claim C9, as amended (two consecutive linear moves with the same feed): when a linear
  move given the feed \<open>f\<close> (a number, not \<open>NaN\<close>) has emitted a line, the next linear move
  given the same \<open>f\<close> prints no feed word, whatever its target and comment: its text is
  the changed axes, the comment and the line end (or nothing at all).
\<close>

theorem C9_linear_feed_not_repeated:
  assumes "linearInterpolation st p (Some f) c = (t1, st1)" and "t1 \<noteq> []" and "f \<noteq> NaN"
  shows "fst (linearInterpolation st1 q (Some f) c') =
           (if nothing_new q (position st1) then []
            else axis_words q (position st1) @ comment_text c' @ [CHR 0x0A])"
proof -
  have st1: "st1 = st\<lparr>lastGCode := ''01'', lastFeed := f\<rparr>"
    using linearInterpolation_emits [OF assms(1,2)] by simp
  show ?thesis
    using assms(3) by (simp add: st1 linearInterpolation_def feed_word_def)
qed

theorem C9_linear_feed_not_repeated_witness:
  "linearInterpolation state0 \<lparr>ax = Some (Num 1), ay = None, az = None\<rparr> (Some (Num 0.002)) None
     = (''G01X1F0.002'' @ [CHR 0x0A], state0\<lparr>lastGCode := ''01'', lastFeed := Num 0.002\<rparr>)
   \<and> ''G01X1F0.002'' @ [CHR 0x0A] \<noteq> []
   \<and> Num 0.002 \<noteq> NaN
   \<and> fst (linearInterpolation (state0\<lparr>lastGCode := ''01'', lastFeed := Num 0.002\<rparr>)
            \<lparr>ax = Some (Num 2), ay = None, az = None\<rparr> (Some (Num 0.002)) None)
       = ''X2'' @ [CHR 0x0A]"
proof -
  have h1: "linearInterpolation state0 \<lparr>ax = Some (Num 1), ay = None, az = None\<rparr>
              (Some (Num 0.002)) None
            = (''G01X1F0.002'' @ [CHR 0x0A], state0\<lparr>lastGCode := ''01'', lastFeed := Num 0.002\<rparr>)"
    by code_simp
  have h2: "''G01X1F0.002'' @ [CHR 0x0A] \<noteq> []" by simp
  have h3: "Num 0.002 \<noteq> NaN" by simp
  have e: "(if nothing_new \<lparr>ax = Some (Num 2), ay = None, az = None\<rparr>
                 (position (state0\<lparr>lastGCode := ''01'', lastFeed := Num 0.002\<rparr>)) then []
            else axis_words \<lparr>ax = Some (Num 2), ay = None, az = None\<rparr>
                   (position (state0\<lparr>lastGCode := ''01'', lastFeed := Num 0.002\<rparr>))
                 @ comment_text None @ [CHR 0x0A]) = ''X2'' @ [CHR 0x0A]"
    by code_simp
  from C9_linear_feed_not_repeated [OF h1 h2 h3,
      of "\<lparr>ax = Some (Num 2), ay = None, az = None\<rparr>" None] e
  have "fst (linearInterpolation (state0\<lparr>lastGCode := ''01'', lastFeed := Num 0.002\<rparr>)
            \<lparr>ax = Some (Num 2), ay = None, az = None\<rparr> (Some (Num 0.002)) None)
       = ''X2'' @ [CHR 0x0A]"
    by (rule trans)
  with h1 h2 h3 show ?thesis by (intro conjI)
qed

text \<open>
  The claim as it was stated fails twice. The same rapid move issued twice prints its
  axis again (the position it compares with is never updated); and a linear move that is
  a no-op (no axis present) leaves the feed unrecorded, so the linear move after it, given
  the same feed, prints the feed word.
\<close>

theorem C9_counterexample:
  "fst (rapidPosition
          (snd (rapidPosition state0 \<lparr>ax = Some (Num 1), ay = None, az = None\<rparr> None))
          \<lparr>ax = Some (Num 1), ay = None, az = None\<rparr> None) = ''X1'' @ [CHR 0x0A]
   \<and> fst (linearInterpolation
          (snd (linearInterpolation state0 \<lparr>ax = None, ay = None, az = None\<rparr>
                  (Some (Num 0.002)) None))
          \<lparr>ax = Some (Num 1), ay = None, az = None\<rparr> (Some (Num 0.002)) None)
       = ''G01X1F0.002'' @ [CHR 0x0A]"
  by code_simp

section \<open>The contour cycle\<close>

lemma genMultiPassPoints_returns:
  assumes "\<forall>p \<in> set pts. not_infinite (px p)" and "0 < i"
  shows "\<exists>passes. genMultiPassPoints pts (Math_max (map px pts)) (Num i) = Some passes"
proof -
  have "Math_max (map px pts) - Math_min (map px pts) \<noteq> PosInf"
    using assms(1) by (intro minus_not_PosInf Math_max_not_PosInf Math_min_not_NegInf) auto
  then have "(Math_max (map px pts) - Math_min (map px pts)) / (Num 2 * Num i) \<noteq> PosInf"
    using assms(2) by (simp add: divide_not_PosInf)
  from counter_values_Some [OF this, of 1] show ?thesis
    by (auto simp: genMultiPassPoints_def Let_def)
qed

lemma simG75_returns:
  assumes "\<forall>p \<in> set pts. not_infinite (px p)" and "0 < i" and "not_infinite U"
  shows "\<exists>t st'. simG75 st pts (Num i) U F = Returns t st'"
proof -
  let ?off = "map (\<lambda>p. \<lparr>px = px p + Num 2 * U, pz = pz p\<rparr>) pts"
  have "\<forall>p \<in> set ?off. not_infinite (px p)"
    using assms(1,3) by (auto intro!: not_infinite_plus not_infinite_times)
  from genMultiPassPoints_returns [OF this assms(2)]
  obtain passes where "genMultiPassPoints ?off (Math_max (map px ?off)) (Num i) = Some passes" ..
  then show ?thesis
    by (simp add: simG75_def Let_def split: prod.splits)
qed




text \<open>
  Claim C5 (with the native-cycle flag off, what \<open>contourCycle\<close> returns is the entry
  linear move followed by the text \<open>undefined\<close>): \<open>G75Functional\<close> is off in \<open>global\<close>.
  For contour diameters and a finish allowance that are not infinite the call returns, and
  its text is the text of the entry move with \<open>undefined\<close> appended; nothing that \<open>simG75\<close>
  assembled is part of it.
\<close>

theorem C5_contourCycle_returns_undefined:
  assumes "\<forall>p \<in> set pts. not_infinite (px p)" and "not_infinite finishBufferRadius"
  shows "\<exists>st'. contourCycle st startPoint pts subroutineID finishBufferRadius f comment =
           Returns (fst (linearInterpolation st (getMovePoint startPoint) (Some f)
                          (Some (''Simulated G75 Contour cycle'' @
                                 (case comment of None \<Rightarrow> [] | Some c \<Rightarrow> '' - '' @ c))))
                    @ ''undefined'') st'"
proof -
  obtain c1 st1 where l: "linearInterpolation st (getMovePoint startPoint) (Some f)
       (Some (''Simulated G75 Contour cycle'' @ (case comment of None \<Rightarrow> [] | Some c \<Rightarrow> '' - '' @ c)))
       = (c1, st1)"
    by (cases "linearInterpolation st (getMovePoint startPoint) (Some f)
       (Some (''Simulated G75 Contour cycle'' @ (case comment of None \<Rightarrow> [] | Some c \<Rightarrow> '' - '' @ c)))")
  have "depths_max global / Num 2 = Num (1 / 50)" by (simp add: global_simps)
  moreover obtain t st' where "simG75 st1 pts (Num (1 / 50)) finishBufferRadius f = Returns t st'"
    using simG75_returns [OF assms(1) _ assms(2), of "1 / 50" st1 f] by auto
  ultimately show ?thesis
    using l by (simp add: contourCycle_def global_simps)
qed

theorem C5_contourCycle_returns_undefined_witness:
  "not_infinite (px \<lparr>px = Num 0.335, pz = Num 0\<rparr>)
   \<and> not_infinite (px \<lparr>px = Num 0.35, pz = Num (- 1)\<rparr>)
   \<and> not_infinite (Num 0.01)
   \<and> (\<exists>st'. contourCycle state0 \<lparr>px = Num 0.51, pz = Num 0.1\<rparr>
               [\<lparr>px = Num 0.335, pz = Num 0\<rparr>, \<lparr>px = Num 0.35, pz = Num (- 1)\<rparr>]
               (Num 100) (Num 0.01) (Num 0.002) None
             = Returns (''G01X0.51Z0.1F0.002(Simulated G75 Contour cycle)'' @ [CHR 0x0A] @
                        ''undefined'') st')"
proof -
  have h1: "\<forall>p \<in> set [\<lparr>px = Num 0.335, pz = Num 0\<rparr>, \<lparr>px = Num 0.35, pz = Num (- 1)\<rparr>].
              not_infinite (px p)" by simp
  have h2: "not_infinite (Num 0.01)" by simp
  have e: "fst (linearInterpolation state0 (getMovePoint \<lparr>px = Num 0.51, pz = Num 0.1\<rparr>)
                 (Some (Num 0.002))
                 (Some (''Simulated G75 Contour cycle'' @
                        (case None of None \<Rightarrow> [] | Some c \<Rightarrow> '' - '' @ c))))
           = ''G01X0.51Z0.1F0.002(Simulated G75 Contour cycle)'' @ [CHR 0x0A]"
    by code_simp
  from C5_contourCycle_returns_undefined [OF h1 h2,
      of state0 "\<lparr>px = Num 0.51, pz = Num 0.1\<rparr>" "Num 100" "Num 0.002" None]
  have "\<exists>st'. contourCycle state0 \<lparr>px = Num 0.51, pz = Num 0.1\<rparr>
               [\<lparr>px = Num 0.335, pz = Num 0\<rparr>, \<lparr>px = Num 0.35, pz = Num (- 1)\<rparr>]
               (Num 100) (Num 0.01) (Num 0.002) None
             = Returns (''G01X0.51Z0.1F0.002(Simulated G75 Contour cycle)'' @ [CHR 0x0A] @
                        ''undefined'') st'"
    unfolding e by simp
  with h2 show ?thesis by simp
qed


section \<open>The segmenter\<close>

lemma findIndex_ge: "- 1 \<le> findIndex P es"
  by (induction es) (simp_all add: Let_def)












subsection \<open>The sections of ascending positions\<close>



lemma takeWhile_index:
  assumes "sorted zr" and "\<And>u v. u \<le> v \<Longrightarrow> P v \<Longrightarrow> P u" and "j < length zr"
  shows "j < length (takeWhile P zr) \<longleftrightarrow> P (zr ! j)"
proof
  assume "j < length (takeWhile P zr)"
  then show "P (zr ! j)"
    by (metis nth_mem set_takeWhileD takeWhile_nth)
next
  assume p: "P (zr ! j)"
  show "j < length (takeWhile P zr)"
  proof (rule ccontr)
    assume "\<not> j < length (takeWhile P zr)"
    then have le: "length (takeWhile P zr) \<le> j" by simp
    then have lt: "length (takeWhile P zr) < length zr" using assms(3) by simp
    have "\<not> P (zr ! length (takeWhile P zr))"
      by (rule nth_length_takeWhile [OF lt])
    moreover have "zr ! length (takeWhile P zr) \<le> zr ! j"
      using assms(1,3) le by (simp add: sorted_nth_mono)
    ultimately show False using assms(2) p by blast
  qed
qed

lemma cnt_lt_index: "sorted zr \<Longrightarrow> j < length zr \<Longrightarrow> j < cnt_lt zr b \<longleftrightarrow> zr ! j < b"
  unfolding cnt_lt_def by (rule takeWhile_index) auto

lemma cnt_le_index: "sorted zr \<Longrightarrow> j < length zr \<Longrightarrow> j < cnt_le zr b \<longleftrightarrow> zr ! j \<le> b"
  unfolding cnt_le_def by (rule takeWhile_index) auto

lemma cnt_lt_le_length: "cnt_lt zr b \<le> length zr"
  by (simp add: cnt_lt_def length_takeWhile_le)


lemma cnt_lt_le_cnt_le: "sorted zr \<Longrightarrow> cnt_lt zr b \<le> cnt_le zr b"
proof (rule ccontr)
  assume s: "sorted zr" and "\<not> cnt_lt zr b \<le> cnt_le zr b"
  then have l: "cnt_le zr b < cnt_lt zr b" by simp
  then have j: "cnt_le zr b < length zr" using cnt_lt_le_length [of zr b] by simp
  from cnt_lt_index [OF s j, of b] l have "zr ! cnt_le zr b < b" by simp
  then have "zr ! cnt_le zr b \<le> b" by simp
  with cnt_le_index [OF s j, of b] show False by simp
qed
































subsection \<open>Diameters of the sections\<close>

lemma set_insert_desc: "set (insert_desc p qs) = insert p (set qs)"
  by (induction qs) auto

lemma set_sort_desc: "set (sort_desc ps) = set ps"
  unfolding sort_desc_def by (induction ps) (simp_all add: set_insert_desc)

lemma px_machiningPoints: "px ` set (machiningPoints (new_Section ps)) = px ` set ps"
  by (auto simp: new_Section_def Let_def set_sort_desc image_iff)

lemma section_end_x_not_infinite:
  assumes "\<forall>v \<in> set xs. not_infinite v"
  shows "not_infinite (fst (snd (section_end xs zs i)))"
proof -
  have x: "not_infinite (toNumber (nth_js xs k))" for k
    using assms by (auto simp: nth_js_def toNumber_def)
  show ?thesis
    unfolding section_end_def Let_def
    by (auto intro!: not_infinite_plus not_infinite_times not_infinite_minus not_infinite_mod1 x)
qed

lemma organize_px: "p \<in> set (organize xs zs) \<Longrightarrow> px p \<in> set xs"
  by (auto simp: organize_def)

lemma slice_subset: "set (slice ys a b) \<subseteq> set ys"
  unfolding slice_def Let_def by (meson set_take_subset set_drop_subset subset_trans)

lemma includedPoints_px:
  assumes "p \<in> set (includedPoints (organize xs zs) si sp ei ep off)"
  shows "px p = fst sp \<or> px p \<in> set xs \<or> (\<exists>e. ep = Some e \<and> px p = fst e)"
  using assms slice_subset [of "organize xs zs"] organize_px [of _ xs zs]
  unfolding includedPoints_def
  by (fastforce split: if_splits option.splits)


lemma new_Section_px_ok:
  assumes "\<forall>p \<in> set ps. not_infinite (px p)"
  shows "\<forall>p \<in> set (machiningPoints (new_Section ps)). not_infinite (px p)"
proof
  fix p assume "p \<in> set (machiningPoints (new_Section ps))"
  then have "px p \<in> px ` set ps" using px_machiningPoints [of ps] by blast
  with assms show "not_infinite (px p)" by auto
qed

lemma interpolate_step_px:
  assumes xs: "\<forall>v \<in> set xs. not_infinite v"
    and inv: "not_infinite (fst (fst (snd acc)))" "px_ok (snd (snd acc))"
  shows "not_infinite (fst (fst (snd (interpolate_step xs zs acc i))))
         \<and> px_ok (snd (snd (interpolate_step xs zs acc i)))"
proof -
  obtain si sp secs where acc: "acc = (si, sp, secs)" by (cases acc)
  obtain ei ep where se: "section_end xs zs i = (ei, ep)" by (cases "section_end xs zs i")
  have ep: "not_infinite (fst ep)"
    using section_end_x_not_infinite [OF xs, of zs i] se by simp
  have sp: "not_infinite (fst sp)" using inv(1) acc by simp
  have "\<forall>p \<in> set (includedPoints (organize xs zs) si sp ei (Some ep) (Num (of_nat i) * stickout global)).
          not_infinite (px p)"
    using includedPoints_px [of _ xs zs si sp ei "Some ep"] ep sp xs by fastforce
  from new_Section_px_ok [OF this] inv(2) ep show ?thesis
    by (simp add: interpolate_step_def acc se px_ok_def)
qed

lemma foldl_interpolate_step_px:
  assumes xs: "\<forall>v \<in> set xs. not_infinite v"
  shows "not_infinite (fst (fst (snd acc))) \<Longrightarrow> px_ok (snd (snd acc)) \<Longrightarrow>
         not_infinite (fst (fst (snd (foldl (interpolate_step xs zs) acc is))))
         \<and> px_ok (snd (snd (foldl (interpolate_step xs zs) acc is)))"
proof (induction "is" arbitrary: acc)
  case Nil
  then show ?case by simp
next
  case (Cons i "is")
  from interpolate_step_px [OF xs Cons.prems, of zs i]
  show ?case by (simp add: Cons.IH)
qed

lemma interpolatePoints_px_ok:
  assumes xs: "\<forall>v \<in> set xs. not_infinite v" and "interpolatePoints xs zs = Some sections"
  shows "px_ok sections"
proof -
  obtain "is" where cv: "counter_values 0 (Math_ceil (Math_max zs / stickout global) - Num 1) = Some is"
    using assms(2) by (auto simp: interpolatePoints_def Let_def split: option.splits)
  define init where "init = (Num 0, (toNumber (nth_js xs 0), toNumber (nth_js zs 0)), [] :: Section list)"
  obtain si sp secs where f: "foldl (interpolate_step xs zs) init is = (si, sp, secs)"
    by (cases "foldl (interpolate_step xs zs) init is")
  have "not_infinite (fst (fst (snd init)))"
    using xs by (auto simp: init_def nth_js_def toNumber_def)
  moreover have "px_ok (snd (snd init))" by (simp add: init_def px_ok_def)
  ultimately have inv: "not_infinite (fst sp)" "px_ok secs"
    using foldl_interpolate_step_px [OF xs, of init zs "is"] f by simp_all
  have "\<forall>p \<in> set (includedPoints (organize xs zs) si sp (Num (of_nat (length (organize xs zs))) - Num 1)
                       None ((Math_ceil (Math_max zs / stickout global) - Num 1) * stickout global)).
          not_infinite (px p)"
    using includedPoints_px [of _ xs zs si sp _ None] inv(1) xs by fastforce
  from new_Section_px_ok [OF this] inv(2)
  have "px_ok (secs @ [new_Section (includedPoints (organize xs zs) si sp
                    (Num (of_nat (length (organize xs zs))) - Num 1) None
                    ((Math_ceil (Math_max zs / stickout global) - Num 1) * stickout global))])"
    by (simp add: px_ok_def)
  moreover have "sections = secs @ [new_Section (includedPoints (organize xs zs) si sp
                    (Num (of_nat (length (organize xs zs))) - Num 1) None
                    ((Math_ceil (Math_max zs / stickout global) - Num 1) * stickout global))]"
    using assms(2) cv f by (simp add: interpolatePoints_def Let_def init_def)
  ultimately show ?thesis by simp
qed

section \<open>The section cycle\<close>

lemma position_linearInterpolation [simp]:
  "position (snd (linearInterpolation st p f c)) = position st"
  by (simp add: linearInterpolation_def)

lemma position_rapidPosition [simp]:
  "position (snd (rapidPosition st p c)) = position st"
  by (simp add: rapidPosition_def)

lemma position_linear_moves [simp]:
  "position (snd (linear_moves st ps f)) = position st"
proof (induction ps arbitrary: st)
  case Nil
  then show ?case by simp
next
  case (Cons p ps)
  have "position (snd (linear_moves (snd (linearInterpolation st p f None)) ps f)) = position st"
    by (simp add: Cons.IH)
  then show ?case by (simp add: case_prod_unfold Let_def)
qed

lemma position_basicTaper [simp]:
  "position (snd (basicTaper st ps f)) = position st"
  by (simp add: basicTaper_def Let_def case_prod_unfold)

lemma position_run_passes [simp]:
  "position (snd (run_passes st passes m orig F)) = position st"
proof (induction passes arbitrary: st)
  case Nil
  then show ?case by simp
next
  case (Cons p ps)
  show ?case by (simp add: case_prod_unfold Let_def Cons.IH)
qed

lemma simG75_cases:
  "simG75 st pts I U F = Diverges \<or>
   (\<exists>t a. simG75 st pts I U F = Returns t a \<and> position a = position st)"
  by (simp add: simG75_def Let_def case_prod_unfold split: option.splits)

lemma contourCycle_cases:
  "contourCycle st sp pts ident fb f c = Diverges \<or>
   (\<exists>t a. contourCycle st sp pts ident fb f c = Returns t a \<and> position a = position st)"
proof -
  let ?l = "linearInterpolation st (getMovePoint sp) (Some f)
       (Some (''Simulated G75 Contour cycle'' @ (case c of None \<Rightarrow> [] | Some c \<Rightarrow> '' - '' @ c)))"
  from simG75_cases [of "snd ?l" pts "depths_max global / Num 2" fb f]
  show ?thesis
    by (auto simp: contourCycle_def global_simps case_prod_unfold)
qed

lemma contourCycle_returns:
  assumes "\<forall>p \<in> set pts. not_infinite (px p)" and "not_infinite fb"
  shows "\<exists>t st'. contourCycle st sp pts ident fb f c = Returns t st'"
proof -
  obtain c1 st1 where l: "linearInterpolation st (getMovePoint sp) (Some f)
       (Some (''Simulated G75 Contour cycle'' @ (case c of None \<Rightarrow> [] | Some c \<Rightarrow> '' - '' @ c)))
       = (c1, st1)"
    by (cases "linearInterpolation st (getMovePoint sp) (Some f)
       (Some (''Simulated G75 Contour cycle'' @ (case c of None \<Rightarrow> [] | Some c \<Rightarrow> '' - '' @ c)))")
  have "depths_max global / Num 2 = Num (1 / 50)" by (simp add: global_simps)
  moreover obtain t st' where "simG75 st1 pts (Num (1 / 50)) fb f = Returns t st'"
    using simG75_returns [OF assms(1) _ assms(2), of "1 / 50" st1 f] by auto
  ultimately show ?thesis
    using l by (simp add: contourCycle_def global_simps)
qed

lemma sectionCycle_range:
  "sd < maxDiameter sec \<Longrightarrow> sectionCycle st sd sec ident = Throws (RangeError range_message) st"
  by (simp add: sectionCycle_def)

lemma sectionCycle_type:
  "\<not> sd < maxDiameter sec \<Longrightarrow> machiningPoints sec = [] \<Longrightarrow>
   sectionCycle st sd sec ident = Throws (TypeError type_message) st"
  by (simp add: sectionCycle_def)

lemma sectionCycle_returns:
  assumes "\<not> sd < maxDiameter sec" and "machiningPoints sec \<noteq> []"
    and "\<forall>p \<in> set (machiningPoints sec). not_infinite (px p)"
  shows "\<exists>t st'. sectionCycle st sd sec ident = Returns t st'"
proof -
  obtain m0 ms where m: "machiningPoints sec = m0 # ms"
    using assms(2) by (cases "machiningPoints sec") auto
  have fb: "not_infinite (depths_max global / Num 4)" by (simp add: global_simps)
  have pts: "\<forall>p \<in> set (m0 # ms). not_infinite (px p)" using assms(3) m by simp
  define safeX where "safeX = sd + xClearance global"
  define safeZ where "safeZ = length_sec sec - stickout global + zClearance global"
  obtain c1 st1 where l1: "linearInterpolation st
      \<lparr>ax = Some (px m0 + xClearance global), ay = None, az = Some (pz m0)\<rparr> None None = (c1, st1)"
    by fastforce
  obtain c3 st3 where l3: "linearInterpolation st1
      \<lparr>ax = Some safeX, ay = None, az = Some safeZ\<rparr> None None = (c3, st3)"
    by fastforce
  obtain c5 st5 where cc: "contourCycle st3 \<lparr>px = safeX, pz = safeZ\<rparr> (m0 # ms) ident
      (depths_max global / Num 4) (feed global) None = Returns c5 st5"
    using contourCycle_returns [OF pts fb] by blast
  obtain c6 st6 where bt: "basicTaper st5 (map getMovePoint (m0 # ms)) (feed global) = (c6, st6)"
    by fastforce
  obtain c7 st7 where rp: "rapidPosition st6
      \<lparr>ax = Some safeX, ay = None, az = Some (zClearance global)\<rparr> None = (c7, st7)"
    by fastforce
  have "sectionCycle st sd sec ident =
          Returns (''G94F'' @ text_of (rpm global * feed global) @ [CHR 0x0A] @ c1 @
                   ''M01(Move stock to appropriate position)'' @ [CHR 0x0A] @ c3 @
                   (''M03S'' @ text_of (rpm global) @ [CHR 0x0A] @
                    ''G95F'' @ text_of (feed global) @ [CHR 0x0A]) @
                   c5 @ c6 @ c7 @ ''M05'' @ [CHR 0x0A]) st7"
    unfolding sectionCycle_def m Let_def
    using assms(1)
    by (simp only: if_False list.case l1 l3 cc bt rp prod.case outcome.case append_assoc
          safeX_def [symmetric] safeZ_def [symmetric])
  then show ?thesis by blast
qed

lemma first_move_agree:
  assumes "fresh_entry st" and "fresh_entry st'" and "ax p \<noteq> None"
  shows "linearInterpolation st p None None = linearInterpolation st' p None None"
proof -
  have pos: "position st = \<lparr>ax = None, ay = None, az = None\<rparr>"
            "position st' = \<lparr>ax = None, ay = None, az = None\<rparr>"
    using assms(1,2) by (simp_all add: fresh_entry_def)
  have n: "\<not> nothing_new p \<lparr>ax = None, ay = None, az = None\<rparr>"
    using assms(3) by (cases "ax p") (simp_all add: nothing_new_def)
  have g: "lastGCode st \<noteq> ''01''" "lastGCode st' \<noteq> ''01''"
    using assms(1,2) by (simp_all add: fresh_entry_def)
  have "st\<lparr>lastGCode := ''01'', lastFeed := Num (- 1)\<rparr> = st'\<lparr>lastGCode := ''01'', lastFeed := Num (- 1)\<rparr>"
    using pos by (cases st; cases st') simp
  then show ?thesis
    using n g by (simp add: linearInterpolation_def pos feed_word_def)
qed

lemma sectionCycle_unfold:
  assumes "\<not> sd < maxDiameter sec" and "machiningPoints sec = m0 # ms"
  shows "sectionCycle st sd sec ident =
    (let l1 = linearInterpolation st
                \<lparr>ax = Some (px m0 + xClearance global), ay = None, az = Some (pz m0)\<rparr> None None;
         safeX = sd + xClearance global;
         safeZ = length_sec sec - stickout global + zClearance global;
         l3 = linearInterpolation (snd l1) \<lparr>ax = Some safeX, ay = None, az = Some safeZ\<rparr> None None
     in case contourCycle (snd l3) \<lparr>px = safeX, pz = safeZ\<rparr> (m0 # ms) ident
               (depths_max global / Num 4) (feed global) None of
          Diverges \<Rightarrow> Diverges
        | Throws e st5 \<Rightarrow> Throws e st5
        | Returns c5 st5 \<Rightarrow>
            (let b6 = basicTaper st5 (map getMovePoint (m0 # ms)) (feed global);
                 r7 = rapidPosition (snd b6)
                        \<lparr>ax = Some safeX, ay = None, az = Some (zClearance global)\<rparr> None
             in Returns (''G94F'' @ text_of (rpm global * feed global) @ [CHR 0x0A] @ fst l1 @
                   ''M01(Move stock to appropriate position)'' @ [CHR 0x0A] @ fst l3 @
                   (''M03S'' @ text_of (rpm global) @ [CHR 0x0A] @
                    ''G95F'' @ text_of (feed global) @ [CHR 0x0A]) @
                   c5 @ fst b6 @ fst r7 @ ''M05'' @ [CHR 0x0A]) (snd r7)))"
  unfolding sectionCycle_def Let_def case_prod_unfold
  using assms by (simp only: if_False list.case append_assoc)

lemma sectionCycle_agree:
  assumes "fresh_entry st" and "fresh_entry st'"
    and "\<not> sd < maxDiameter sec" and "machiningPoints sec \<noteq> []"
  shows "sectionCycle st sd sec ident = sectionCycle st' sd sec ident"
proof -
  obtain m0 ms where m: "machiningPoints sec = m0 # ms"
    using assms(4) by (cases "machiningPoints sec") auto
  have "linearInterpolation st
          \<lparr>ax = Some (px m0 + xClearance global), ay = None, az = Some (pz m0)\<rparr> None None
        = linearInterpolation st'
          \<lparr>ax = Some (px m0 + xClearance global), ay = None, az = Some (pz m0)\<rparr> None None"
    by (rule first_move_agree [OF assms(1,2)]) simp
  then show ?thesis
    unfolding sectionCycle_unfold [OF assms(3) m] by (simp only:)
qed

lemma rapid_leaves_fresh:
  assumes "position st = \<lparr>ax = None, ay = None, az = None\<rparr>" and "ax p \<noteq> None"
  shows "fresh_entry (snd (rapidPosition st p c))"
proof -
  have "\<not> nothing_new p \<lparr>ax = None, ay = None, az = None\<rparr>"
    using assms(2) by (cases "ax p") (simp_all add: nothing_new_def)
  then show ?thesis
    using assms(1) by (simp add: rapidPosition_def fresh_entry_def)
qed

lemma sectionCycle_result:
  assumes "fresh_entry st"
  shows "(case sectionCycle st sd sec ident of
            Returns t a \<Rightarrow> fresh_entry a
          | Throws e a \<Rightarrow> a = st
          | Diverges \<Rightarrow> True)"
proof (cases "sd < maxDiameter sec")
  case True
  then show ?thesis by (simp add: sectionCycle_range)
next
  case nr: False
  show ?thesis
  proof (cases "machiningPoints sec")
    case Nil
    with nr show ?thesis by (simp add: sectionCycle_type)
  next
    case (Cons m0 ms)
    define safeX where "safeX = sd + xClearance global"
    define safeZ where "safeZ = length_sec sec - stickout global + zClearance global"
    define st3 where "st3 = snd (linearInterpolation (snd (linearInterpolation st
                \<lparr>ax = Some (px m0 + xClearance global), ay = None, az = Some (pz m0)\<rparr> None None))
                \<lparr>ax = Some safeX, ay = None, az = Some safeZ\<rparr> None None)"
    have p3: "position st3 = \<lparr>ax = None, ay = None, az = None\<rparr>"
      using assms by (simp add: st3_def fresh_entry_def)
    from contourCycle_cases [of st3 "\<lparr>px = safeX, pz = safeZ\<rparr>" "m0 # ms" ident
            "depths_max global / Num 4" "feed global" None]
    show ?thesis
    proof
      assume "contourCycle st3 \<lparr>px = safeX, pz = safeZ\<rparr> (m0 # ms) ident
                (depths_max global / Num 4) (feed global) None = Diverges"
      then show ?thesis
        unfolding sectionCycle_unfold [OF nr Cons] Let_def
          safeX_def [symmetric] safeZ_def [symmetric] st3_def [symmetric]
        by simp
    next
      assume "\<exists>t a. contourCycle st3 \<lparr>px = safeX, pz = safeZ\<rparr> (m0 # ms) ident
                (depths_max global / Num 4) (feed global) None = Returns t a
                \<and> position a = position st3"
      then obtain t a where c: "contourCycle st3 \<lparr>px = safeX, pz = safeZ\<rparr> (m0 # ms) ident
                (depths_max global / Num 4) (feed global) None = Returns t a"
        and pa: "position a = position st3" by blast
      have "fresh_entry (snd (rapidPosition (snd (basicTaper a (map getMovePoint (m0 # ms)) (feed global)))
               \<lparr>ax = Some safeX, ay = None, az = Some (zClearance global)\<rparr> None))"
        by (rule rapid_leaves_fresh) (simp_all add: pa p3)
      then show ?thesis
        unfolding sectionCycle_unfold [OF nr Cons] Let_def
          safeX_def [symmetric] safeZ_def [symmetric] st3_def [symmetric] c
        by simp
    qed
  qed
qed

section \<open>The program assembler\<close>

text \<open>
  Claim C10 (free-end-last input: the diameters are reversed and the locations re-offset,
  so that the data is mirrored over the same span). The diameters are reversed and the
  locations are left as they were: for diameters 3, 2, 1 at 0, 0.25, 1 the segmenter is
  handed the diameter 2 at 0.25, where the mirrored data has it at 0.75.
\<close>

theorem C10_locations_not_reoffset:
  "prepare_points [Number 3, Number 2, Number 1] (Some [Number 0, Number 0.25, Number 1])
     = Inr ([Num 1, Num 2, Num 3], [Num 0, Num 0.25, Num 1], 0, 0)"
  by code_simp

lemma run_sections_throws:
  assumes "px_ok secs" and "\<exists>sec \<in> set secs. sd < maxDiameter sec"
  shows "\<exists>e st'. run_sections st sd secs i = Throws e st' \<and>
           (e = RangeError range_message \<or>
            (e = TypeError type_message \<and> (\<exists>sec \<in> set secs. machiningPoints sec = [])))"
  using assms
proof (induction secs arbitrary: st i)
  case Nil
  then show ?case by simp
next
  case (Cons s ss)
  show ?case
  proof (cases "sd < maxDiameter s")
    case True
    then show ?thesis by (simp add: sectionCycle_range)
  next
    case nr: False
    show ?thesis
    proof (cases "machiningPoints s = []")
      case True
      with nr show ?thesis by (simp add: sectionCycle_type)
    next
      case False
      have "\<forall>p \<in> set (machiningPoints s). not_infinite (px p)"
        using Cons.prems(1) by (simp add: px_ok_def)
      from sectionCycle_returns [OF nr False this]
      obtain t st1 where r: "sectionCycle st sd s (Num (of_nat (i + 1)) * Num 100) = Returns t st1"
        by blast
      have "px_ok ss" using Cons.prems(1) by (simp add: px_ok_def)
      moreover have "\<exists>sec \<in> set ss. sd < maxDiameter sec"
        using Cons.prems(2) nr by auto
      ultimately obtain e st' where
        "run_sections st1 sd ss (i + 1) = Throws e st'"
        "e = RangeError range_message \<or>
         (e = TypeError type_message \<and> (\<exists>sec \<in> set ss. machiningPoints sec = []))"
        using Cons.IH by blast
      then show ?thesis using r by auto
    qed
  qed
qed

lemma counter_values_returns: "n \<noteq> PosInf \<Longrightarrow> \<exists>is. counter_values k n = Some is"
  by (cases n) simp_all

lemma Math_ceil_not_PosInf: "n \<noteq> PosInf \<Longrightarrow> Math_ceil n \<noteq> PosInf"
  by (cases n) simp_all

lemma interpolatePoints_returns:
  assumes "\<forall>v \<in> set zs. not_infinite v"
  shows "\<exists>secs. interpolatePoints xs zs = Some secs"
proof -
  have "Math_max zs / Num 1 \<noteq> PosInf"
    using Math_max_not_PosInf [OF assms] by (intro divide_not_PosInf) simp_all
  then have "Math_ceil (Math_max zs / stickout global) - Num 1 \<noteq> PosInf"
    by (intro minus_not_PosInf Math_ceil_not_PosInf) (simp_all add: global_simps)
  from counter_values_returns [OF this, of 0] show ?thesis
    by (auto simp: interpolatePoints_def Let_def split: prod.splits)
qed

lemma cell_values_finite: "v \<in> set (map cell_value (filter numeric cs)) \<Longrightarrow> not_infinite v"
proof (induction cs)
  case Nil
  then show ?case by simp
next
  case (Cons c cs)
  then show ?case by (cases c) auto
qed

lemma set_insert_asc: "set (insert_asc p qs) = insert p (set qs)"
  by (induction qs) auto

lemma set_sort_asc: "set (sort_asc ps) = set ps"
  unfolding sort_asc_def by (induction ps) (simp_all add: set_insert_asc)

lemma prepare_points_finite:
  assumes "prepare_points ds ls = Inr (diameterPoints, locationPoints, n1, n2)"
  shows "(\<forall>v \<in> set diameterPoints. not_infinite v) \<and> (\<forall>v \<in> set locationPoints. not_infinite v)"
proof (cases ls)
  case None
  have "not_infinite (Num (of_nat i) * Num 0.25)" for i by simp
  with assms None cell_values_finite [of _ ds] show ?thesis
    by (auto simp: prepare_points_def Let_def split: if_splits simp del: times_number.simps)
next
  case (Some locs)
  define fd where "fd = map cell_value (filter numeric ds)"
  define fl where "fl = map cell_value (filter numeric locs)"
  define tmp where "tmp = sort_asc (map (\<lambda>(d, l). \<lparr>px = d, pz = l\<rparr>) (zip fd fl))"
  have tp: "px p \<in> set fd \<and> pz p \<in> set fl" if "p \<in> set tmp" for p
    using that unfolding tmp_def set_sort_asc by (auto dest: set_zip_leftD set_zip_rightD)
  have d: "not_infinite v" if "v \<in> set (map px tmp)" for v
    using that tp cell_values_finite [of _ ds] by (auto simp: fd_def)
  have l: "not_infinite v" if "v \<in> set (map pz tmp)" for v
    using that tp cell_values_finite [of _ locs] by (auto simp: fl_def)
  have "locationPoints = map pz tmp \<and> (diameterPoints = map px tmp \<or> diameterPoints = rev (map px tmp))"
    using assms unfolding Some prepare_points_def Let_def tmp_def fd_def fl_def
    by (auto split: if_splits)
  with d l show ?thesis by auto
qed

text \<open>
  Claim C1 (a section whose largest diameter exceeds the stock makes \<open>sectionCycle\<close> raise
  before it emits anything, and \<open>genCode\<close> then returns the error message alone). For
  cleaned input the segmenter returns its sections; \<open>sectionCycle\<close> on any of them whose
  \<open>maxDiameter\<close> exceeds the stock throws the RangeError at once, in the state it was
  entered with; and if there is such a section, \<open>genCode\<close> returns, and what it returns is
  an error message and nothing else: no header and none of the text of the sections
  before. The message is the RangeError's, unless a section before the offending one has
  no point at all (locations that start beyond the first boundary), in which case reading
  its first machining point has thrown first and the message is that TypeError's.
\<close>

theorem C1_out_of_stock_is_all_or_nothing:
  assumes "prepare_points diameterList optLocationList = Inr (diameterPoints, locationPoints, n1, n2)"
  shows "\<exists>sections. interpolatePoints diameterPoints locationPoints = Some sections \<and>
           (\<forall>sec \<in> set sections. \<forall>st ident.
              Num stockDiameter < maxDiameter sec \<longrightarrow>
              sectionCycle st (Num stockDiameter) sec ident = Throws (RangeError range_message) st) \<and>
           ((\<exists>sec \<in> set sections. Num stockDiameter < maxDiameter sec) \<longrightarrow>
              (\<exists>t st'. genCode st today stockDiameter diameterList optLocationList = Some (t, st') \<and>
                 (t = range_message \<or>
                  (t = type_message \<and> (\<exists>sec \<in> set sections. machiningPoints sec = [])))))"
proof -
  note fin = prepare_points_finite [OF assms]
  obtain sections where ip: "interpolatePoints diameterPoints locationPoints = Some sections"
    using interpolatePoints_returns fin by blast
  have ok: "px_ok sections"
    using interpolatePoints_px_ok [OF _ ip] fin by blast
  have "\<exists>t st'. genCode st today stockDiameter diameterList optLocationList = Some (t, st') \<and>
          (t = range_message \<or>
           (t = type_message \<and> (\<exists>sec \<in> set sections. machiningPoints sec = [])))"
    if "\<exists>sec \<in> set sections. Num stockDiameter < maxDiameter sec"
  proof -
    from run_sections_throws [OF ok that, of st 0]
    obtain e st' where r: "run_sections st (Num stockDiameter) sections 0 = Throws e st'"
      and e: "e = RangeError range_message \<or>
              (e = TypeError type_message \<and> (\<exists>sec \<in> set sections. machiningPoints sec = []))"
      by blast
    have "genCode st today stockDiameter diameterList optLocationList = Some (message e, st')"
      by (simp add: genCode_def assms ip r)
    with e show ?thesis by auto
  qed
  with ip show ?thesis
    by (auto simp: sectionCycle_range)
qed

theorem C1_out_of_stock_is_all_or_nothing_witness:
  "\<exists>st'. genCode state0 \<lparr>getMonth = 10, getDate = 2, getFullYear = 2026\<rparr> 0.3
           [Number 0.1, Number 0.1, Number 0.1, Number 0.1, Number 0.1, Number 0.5] None
         = Some (range_message, st')"
proof -
  have h: "prepare_points
             [Number 0.1, Number 0.1, Number 0.1, Number 0.1, Number 0.1, Number 0.5] None
           = Inr ([Num 0.1, Num 0.1, Num 0.1, Num 0.1, Num 0.1, Num 0.5],
                  [Num 0, Num 0.25, Num 0.5, Num 0.75, Num 1, Num 1.25], 0, - 1)"
    by code_simp
  have s: "map_option (map (\<lambda>sec. (maxDiameter sec, machiningPoints sec = [])))
             (interpolatePoints [Num 0.1, Num 0.1, Num 0.1, Num 0.1, Num 0.1, Num 0.5]
                [Num 0, Num 0.25, Num 0.5, Num 0.75, Num 1, Num 1.25])
           = Some [(Num 0.1, False), (Num 0.5, False)]"
    by code_simp
  from C1_out_of_stock_is_all_or_nothing [OF h, of "0.3" state0
       "\<lparr>getMonth = 10, getDate = 2, getFullYear = 2026\<rparr>"]
  obtain sections where
    ip: "interpolatePoints [Num 0.1, Num 0.1, Num 0.1, Num 0.1, Num 0.1, Num 0.5]
           [Num 0, Num 0.25, Num 0.5, Num 0.75, Num 1, Num 1.25] = Some sections"
    and imp: "(\<exists>sec \<in> set sections. Num 0.3 < maxDiameter sec) \<longrightarrow>
      (\<exists>t st'. genCode state0 \<lparr>getMonth = 10, getDate = 2, getFullYear = 2026\<rparr> 0.3
              [Number 0.1, Number 0.1, Number 0.1, Number 0.1, Number 0.1, Number 0.5]
              None = Some (t, st') \<and>
         (t = range_message \<or>
          (t = type_message \<and> (\<exists>sec \<in> set sections. machiningPoints sec = []))))"
    by blast
  have m: "map (\<lambda>sec. (maxDiameter sec, machiningPoints sec = [])) sections
             = [(Num 0.1, False), (Num 0.5, False)]"
    using s ip by simp
  then obtain s1 s2 where ss: "sections = [s1, s2]"
    by (cases sections; cases "tl sections") auto
  have "Num 0.3 < maxDiameter s2" "machiningPoints s1 \<noteq> []" "machiningPoints s2 \<noteq> []"
    using m unfolding ss by simp_all
  with imp show ?thesis unfolding ss by auto
qed

lemma same_output_refl:
  "(case r of Returns t a \<Rightarrow> fresh_entry a | Throws e a \<Rightarrow> fresh_entry a | Diverges \<Rightarrow> True)
   \<Longrightarrow> same_output r r"
  by (cases r) simp_all

lemma same_output_fresh:
  "same_output r r' \<Longrightarrow>
   (case r of Returns t a \<Rightarrow> fresh_entry a | Throws e a \<Rightarrow> fresh_entry a | Diverges \<Rightarrow> True)"
  by (cases r; cases r') simp_all

lemma run_sections_agree:
  "fresh_entry st \<Longrightarrow> fresh_entry st' \<Longrightarrow>
   same_output (run_sections st sd secs i) (run_sections st' sd secs i)"
proof (induction secs arbitrary: st st' i)
  case Nil
  then show ?case by simp
next
  case (Cons s ss)
  let ?id = "Num (of_nat (i + 1)) * Num 100"
  show ?case
  proof (cases "sd < maxDiameter s")
    case True
    with Cons.prems show ?thesis by (simp add: sectionCycle_range)
  next
    case nr: False
    show ?thesis
    proof (cases "machiningPoints s = []")
      case True
      with nr Cons.prems show ?thesis by (simp add: sectionCycle_type)
    next
      case False
      have eq: "sectionCycle st' sd s ?id = sectionCycle st sd s ?id"
        using sectionCycle_agree [OF Cons.prems nr False] by simp
      show ?thesis
      proof (cases "sectionCycle st sd s ?id")
        case Diverges
        then show ?thesis using eq by simp
      next
        case (Throws e a)
        with sectionCycle_result [OF Cons.prems(1), of sd s ?id]
             sectionCycle_result [OF Cons.prems(2), of sd s ?id] Cons.prems eq
        show ?thesis by simp
      next
        case (Returns c st1)
        with sectionCycle_result [OF Cons.prems(1), of sd s ?id]
        have f1: "fresh_entry st1" by simp
        from Cons.IH [OF f1 f1, of "i + 1"]
        have "same_output (run_sections st1 sd ss (i + 1)) (run_sections st1 sd ss (i + 1))" .
        then show ?thesis
          using Returns eq by (cases "run_sections st1 sd ss (i + 1)") simp_all
      qed
    qed
  qed
qed

lemma genCode_agree:
  assumes "fresh_entry st" and "fresh_entry st'"
  shows "map_option fst (genCode st today stock d l) = map_option fst (genCode st' today stock d l)
         \<and> (\<forall>t a. genCode st today stock d l = Some (t, a) \<longrightarrow> fresh_entry a)"
proof (cases "prepare_points d l")
  case (Inl m)
  with assms show ?thesis by (simp add: genCode_def)
next
  case (Inr r)
  obtain ds ls n1 n2 where r: "r = (ds, ls, n1, n2)" by (cases r)
  show ?thesis
  proof (cases "interpolatePoints ds ls")
    case None
    then show ?thesis by (simp add: genCode_def Inr r)
  next
    case (Some sections)
    from run_sections_agree [OF assms, of "Num stock" sections 0]
    show ?thesis
      by (cases "run_sections st (Num stock) sections 0";
          cases "run_sections st' (Num stock) sections 0")
         (simp_all add: genCode_def Inr r Some)
  qed
qed

lemma fresh_entry_state0: "fresh_entry state0"
  by (simp add: fresh_entry_def state0_def)

text \<open>
  Claim C7 (two successive calls of \<open>genCode\<close> produce the same text, the date apart: no
  emitter state leaks from one run into the next). The state is a module-level variable
  that \<open>genCode\<close> does not initialise, so a run starts in the state the run before left.
  That state is never told apart from the initial one: every section starts with a linear
  move, which prints \<open>G01\<close> after the mode \<open>00\<close> as it does after \<open>None\<close> and sets mode and
  feed itself, and the last-known position is never written. Hence, after any run of
  \<open>genCode\<close> from the initial state, a run on any input (the date is an input of the
  model) returns exactly the text that it returns from the initial state, or does not
  return in both cases.
\<close>

theorem C7_successive_runs:
  assumes "genCode state0 today1 stock1 d1 l1 = Some (t1, st1)"
  shows "map_option fst (genCode st1 today stock d l) = map_option fst (genCode state0 today stock d l)"
proof -
  have "fresh_entry st1"
    using genCode_agree [OF fresh_entry_state0 fresh_entry_state0, of today1 stock1 d1 l1] assms
    by blast
  from genCode_agree [OF this fresh_entry_state0] show ?thesis by blast
qed

theorem C7_successive_runs_witness:
  "genCode state0 \<lparr>getMonth = 10, getDate = 2, getFullYear = 2026\<rparr> 0.5 [Number 0.25, Number 0.375] None
   = Some (
      ''(OMalley Brass)\<newline>'' @
      ''(1 inch part stickout)\<newline>'' @
      ''(0.5 inch diameter stock)\<newline>'' @
      ''(T1 OD Cutter)\<newline>'' @
      ''(Code generation by Jeremy Peplinski)\<newline>'' @
      ''(Executed 11.2.2026)\<newline>'' @
      ''G72G90G97G95F0.002\<newline>'' @
      ''T1\<newline>'' @
      ''(Section 1)\<newline>'' @
      ''G94F3\<newline>'' @
      ''G01X0.26Z-0.75\<newline>'' @
      ''M01(Move stock to appropriate position)\<newline>'' @
      ''X0.51Z-0.65\<newline>'' @
      ''M03S1500\<newline>'' @
      ''G95F0.002\<newline>'' @
      ''X0.51Z-0.65F0.002(Simulated G75 Contour cycle)\<newline>'' @
      ''undefinedG01X0.25Z-0.75F0.002\<newline>'' @
      ''X0.375Z-1\<newline>'' @
      ''X0.385\<newline>'' @
      ''G00X0.51Z0.1\<newline>'' @
      ''M05\<newline>'' @
      ''M30\<newline>'',
      \<lparr>lastGCode = ''00'', lastFeed = Num (- 1),
       position = \<lparr>ax = None, ay = None, az = None\<rparr>\<rparr>)
   \<and> map_option fst
       (genCode \<lparr>lastGCode = ''00'', lastFeed = Num (- 1),
       position = \<lparr>ax = None, ay = None, az = None\<rparr>\<rparr>
          \<lparr>getMonth = 10, getDate = 2, getFullYear = 2026\<rparr> 0.5 [Number 0.25, Number 0.375] None)
     = Some (
      ''(OMalley Brass)\<newline>'' @
      ''(1 inch part stickout)\<newline>'' @
      ''(0.5 inch diameter stock)\<newline>'' @
      ''(T1 OD Cutter)\<newline>'' @
      ''(Code generation by Jeremy Peplinski)\<newline>'' @
      ''(Executed 11.2.2026)\<newline>'' @
      ''G72G90G97G95F0.002\<newline>'' @
      ''T1\<newline>'' @
      ''(Section 1)\<newline>'' @
      ''G94F3\<newline>'' @
      ''G01X0.26Z-0.75\<newline>'' @
      ''M01(Move stock to appropriate position)\<newline>'' @
      ''X0.51Z-0.65\<newline>'' @
      ''M03S1500\<newline>'' @
      ''G95F0.002\<newline>'' @
      ''X0.51Z-0.65F0.002(Simulated G75 Contour cycle)\<newline>'' @
      ''undefinedG01X0.25Z-0.75F0.002\<newline>'' @
      ''X0.375Z-1\<newline>'' @
      ''X0.385\<newline>'' @
      ''G00X0.51Z0.1\<newline>'' @
      ''M05\<newline>'' @
      ''M30\<newline>'')"
proof -
  have h: "genCode state0 \<lparr>getMonth = 10, getDate = 2, getFullYear = 2026\<rparr> 0.5 [Number 0.25, Number 0.375] None
   = Some (
      ''(OMalley Brass)\<newline>'' @
      ''(1 inch part stickout)\<newline>'' @
      ''(0.5 inch diameter stock)\<newline>'' @
      ''(T1 OD Cutter)\<newline>'' @
      ''(Code generation by Jeremy Peplinski)\<newline>'' @
      ''(Executed 11.2.2026)\<newline>'' @
      ''G72G90G97G95F0.002\<newline>'' @
      ''T1\<newline>'' @
      ''(Section 1)\<newline>'' @
      ''G94F3\<newline>'' @
      ''G01X0.26Z-0.75\<newline>'' @
      ''M01(Move stock to appropriate position)\<newline>'' @
      ''X0.51Z-0.65\<newline>'' @
      ''M03S1500\<newline>'' @
      ''G95F0.002\<newline>'' @
      ''X0.51Z-0.65F0.002(Simulated G75 Contour cycle)\<newline>'' @
      ''undefinedG01X0.25Z-0.75F0.002\<newline>'' @
      ''X0.375Z-1\<newline>'' @
      ''X0.385\<newline>'' @
      ''G00X0.51Z0.1\<newline>'' @
      ''M05\<newline>'' @
      ''M30\<newline>'',
      \<lparr>lastGCode = ''00'', lastFeed = Num (- 1),
       position = \<lparr>ax = None, ay = None, az = None\<rparr>\<rparr>)"
    by code_simp
  from C7_successive_runs [OF h, of "\<lparr>getMonth = 10, getDate = 2, getFullYear = 2026\<rparr>" "0.5"
      "[Number 0.25, Number 0.375]" None]
  show ?thesis
    unfolding h by simp
qed

end
